theory Spec2Isabelle
  imports
    Complex_Main
    "HOL-Library.Char_ord"
    "HOL-Library.List_Lexorder"
    "HOL-Library.Product_Lexorder"
    "HOL-Library.Sublist"
begin

section \<open>The sales dashboard: data model\<close>

text \<open>
  The program is one script, \<^verbatim>\<open>ecommerce_dashboard.py\<close>: it loads a table of orders,
  reads the filter widgets, stops when a selection is empty, filters the table, and derives
  the key metrics, their deltas, a time series and several grouped summaries from the
  filtered table. The embedding follows the script top to bottom.

  A row of the table is a record. Every cell is present (no missing value), as in the data
  model of the specification. Dates are day numbers (days since 1970-01-01). The columns
  \<^verbatim>\<open>Sales\<close> and \<^verbatim>\<open>Profit\<close> are float64 columns, as the reader types a column of
  decimal amounts; a cell is a finite float. A file whose amounts are all written as whole
  numbers is typed int64 by the reader, and its sums wrap around: such a table is outside
  this model. A finite float is an exact rational here: the infinities, NaN and the
  overflow of an operation to an infinity are modelled, see \<open>float64\<close> below; rounding
  and the sign of zero are not.
\<close>

type_synonym date = int

record order_record =
  order_id :: string
  order_date :: date
  ship_date :: date
  segment :: string
  region :: string
  category :: string
  product_name :: string
  sales :: rat
  profit :: rat

text \<open>
  \<^verbatim>\<open>df["Delivery Time"] = (df["Ship Date"] - df["Order Date"]).dt.days\<close> in
  \<^verbatim>\<open>load_data\<close>: a column computed once from two others and never written again.
\<close>

definition delivery_time :: "order_record \<Rightarrow> int" where
  "delivery_time r = ship_date r - order_date r"

text \<open>
  The sidebar widgets: a date range, with both of its dates chosen, and two
  multi-selections. A multi-selection is the list of chosen options;
  \<^verbatim>\<open>not selected_segments\<close> holds exactly for the empty list.
\<close>

record criteria =
  date_range :: "date \<times> date"
  selected_segments :: "string list"
  selected_regions :: "string list"

text \<open>
  What ends a run early: the validation's \<^verbatim>\<open>st.warning(...); st.stop()\<close>, and the
  two exceptions a run can raise, neither of which the script handles: the one of a
  division of Python integers by zero, and the one of drawing the segment chart of a
  table without rows.
\<close>

datatype error = IncompleteCriteria | ZeroDivisionError | IndexError

section \<open>Filtering\<close>

text \<open>
  The script builds four boolean columns, combines them element by element with \<^verbatim>\<open>&\<close>
  and indexes the table with the resulting mask. The model does the same on lists.
\<close>

definition ge_mask :: "date list \<Rightarrow> date \<Rightarrow> bool list" where
  "ge_mask col d = map (\<lambda>x. d \<le> x) col"

definition le_mask :: "date list \<Rightarrow> date \<Rightarrow> bool list" where
  "le_mask col d = map (\<lambda>x. x \<le> d) col"

definition isin :: "string list \<Rightarrow> string list \<Rightarrow> bool list" where
  "isin col vals = map (\<lambda>x. x \<in> set vals) col"

definition mask_and :: "bool list \<Rightarrow> bool list \<Rightarrow> bool list" where
  "mask_and m1 m2 = map2 (\<and>) m1 m2"

definition select_mask :: "'a list \<Rightarrow> bool list \<Rightarrow> 'a list" where
  "select_mask df m = map fst (filter snd (zip df m))"

definition filtered_df :: "order_record list \<Rightarrow> criteria \<Rightarrow> order_record list" where
  "filtered_df df c =
     select_mask df
       (mask_and
         (mask_and
           (mask_and (ge_mask (map order_date df) (fst (date_range c)))
                     (le_mask (map order_date df) (snd (date_range c))))
           (isin (map segment df) (selected_segments c)))
         (isin (map region df) (selected_regions c)))"

text \<open>
  The validation and the filter together are the specification's \<open>apply\<close>: the script
  stops before the filter when the segment or the region selection is empty.
\<close>

definition apply_criteria :: "order_record list \<Rightarrow> criteria \<Rightarrow> error + order_record list" where
  "apply_criteria df c =
     (if selected_segments c = [] \<or> selected_regions c = [] then Inl IncompleteCriteria
      else Inr (filtered_df df c))"

section \<open>Key metrics and deltas\<close>

text \<open>
  A float of the program: a finite value, an infinity or NaN. The operations below are
  the IEEE-754 ones on these values. On finite operands the exact result is taken, and it
  becomes an infinity when its magnitude reaches \<open>2^1024 - 2^970\<close>, the least magnitude
  that rounds to an infinity.
\<close>

datatype float64 = Num rat | PosInf | NegInf | NaN

definition overflow_limit :: rat where
  "overflow_limit = 2 ^ 1024 - 2 ^ 970"

definition overflow :: "rat \<Rightarrow> float64" where
  "overflow x =
     (if overflow_limit \<le> x then PosInf
      else if x \<le> - overflow_limit then NegInf
      else Num x)"

fun fadd :: "float64 \<Rightarrow> float64 \<Rightarrow> float64" where
  "fadd (Num a) (Num b) = overflow (a + b)"
| "fadd NaN y = NaN"
| "fadd x NaN = NaN"
| "fadd PosInf NegInf = NaN"
| "fadd NegInf PosInf = NaN"
| "fadd PosInf y = PosInf"
| "fadd NegInf y = NegInf"
| "fadd (Num a) PosInf = PosInf"
| "fadd (Num a) NegInf = NegInf"

fun fsub :: "float64 \<Rightarrow> float64 \<Rightarrow> float64" where
  "fsub (Num a) (Num b) = overflow (a - b)"
| "fsub NaN y = NaN"
| "fsub x NaN = NaN"
| "fsub PosInf PosInf = NaN"
| "fsub NegInf NegInf = NaN"
| "fsub PosInf y = PosInf"
| "fsub NegInf y = NegInf"
| "fsub (Num a) PosInf = NegInf"
| "fsub (Num a) NegInf = PosInf"

fun fdiv :: "float64 \<Rightarrow> float64 \<Rightarrow> float64" where
  "fdiv (Num a) (Num b) =
     (if b = 0 then (if a = 0 then NaN else if 0 < a then PosInf else NegInf)
      else overflow (a / b))"
| "fdiv NaN y = NaN"
| "fdiv x NaN = NaN"
| "fdiv (Num a) PosInf = Num 0"
| "fdiv (Num a) NegInf = Num 0"
| "fdiv PosInf (Num b) = (if 0 \<le> b then PosInf else NegInf)"
| "fdiv NegInf (Num b) = (if 0 \<le> b then NegInf else PosInf)"
| "fdiv PosInf y = NaN"
| "fdiv NegInf y = NaN"

fun fmul :: "float64 \<Rightarrow> float64 \<Rightarrow> float64" where
  "fmul (Num a) (Num b) = overflow (a * b)"
| "fmul NaN y = NaN"
| "fmul x NaN = NaN"
| "fmul PosInf (Num b) = (if b = 0 then NaN else if 0 < b then PosInf else NegInf)"
| "fmul NegInf (Num b) = (if b = 0 then NaN else if 0 < b then NegInf else PosInf)"
| "fmul (Num a) PosInf = (if a = 0 then NaN else if 0 < a then PosInf else NegInf)"
| "fmul (Num a) NegInf = (if a = 0 then NaN else if 0 < a then NegInf else PosInf)"
| "fmul PosInf PosInf = PosInf"
| "fmul NegInf NegInf = PosInf"
| "fmul PosInf NegInf = NegInf"
| "fmul NegInf PosInf = NegInf"

text \<open>Comparison of floats: every comparison with NaN is false.\<close>

fun fle :: "float64 \<Rightarrow> float64 \<Rightarrow> bool" where
  "fle (Num a) (Num b) = (a \<le> b)"
| "fle NaN y = False"
| "fle x NaN = False"
| "fle NegInf y = True"
| "fle x PosInf = True"
| "fle PosInf y = False"
| "fle x NegInf = False"

fun flt :: "float64 \<Rightarrow> float64 \<Rightarrow> bool" where
  "flt (Num a) (Num b) = (a < b)"
| "flt NaN y = False"
| "flt x NaN = False"
| "flt PosInf y = False"
| "flt x NegInf = False"
| "flt NegInf y = True"
| "flt x PosInf = True"

text \<open>
  \<^verbatim>\<open>Series.sum()\<close> on a float64 column accumulates floats from zero, so a partial sum
  can overflow to an infinity. The library chooses the order of the additions; they are
  made from left to right here. The theorems on totals are stated for columns of whole
  numbers whose absolute values add up to at most \<open>2^53\<close>: there every partial sum, in
  any order, is a whole number that a float holds exactly, and the total is the same
  number in an int64 column.
  \<^verbatim>\<open>Series.nunique()\<close> is the length of the list of distinct values, a Python integer;
  \<^verbatim>\<open>Series.mean()\<close> is the sum over the count, and NaN on an empty column.
\<close>

definition series_sum :: "rat list \<Rightarrow> float64" where
  "series_sum xs = foldl fadd (Num 0) (map Num xs)"

text \<open>
  The sum over the rows of one group or of one time bin, as \<^verbatim>\<open>groupby(...).sum()\<close> and
  \<^verbatim>\<open>resample(...).sum()\<close> form it: the exact sum, zero for no row. The float range is
  not modelled for these sums.
\<close>

definition group_sum :: "rat list \<Rightarrow> rat" where
  "group_sum xs = foldl (+) 0 xs"

definition nunique :: "string list \<Rightarrow> int" where
  "nunique xs = int (length (remdups xs))"

definition series_mean :: "int list \<Rightarrow> float64" where
  "series_mean xs =
     (if length xs = 0 then NaN
      else Num (rat_of_int (foldl (+) 0 xs) / rat_of_nat (length xs)))"

record kpi =
  total_sales :: float64
  total_profit :: float64
  total_orders :: int
  avg_delivery :: float64

text \<open>
  Lines 83 to 86 compute the four metrics on the whole table and lines 88 to 91 the same
  four on the filtered table: one function, applied twice.
\<close>

definition summarize :: "order_record list \<Rightarrow> kpi" where
  "summarize rs =
     \<lparr> total_sales = series_sum (map sales rs),
       total_profit = series_sum (map profit rs),
       total_orders = nunique (map order_id rs),
       avg_delivery = series_mean (map delivery_time rs) \<rparr>"

text \<open>
  The deltas, lines 94 to 97. Sales and profit totals are numpy floats: their division by
  zero gives an infinity or NaN and raises nothing. The order counts are Python integers:
  their division by zero raises \<^verbatim>\<open>ZeroDivisionError\<close>.
\<close>

definition sales_delta :: "float64 \<Rightarrow> float64 \<Rightarrow> float64" where
  "sales_delta overall_sales filtered_sales =
     fmul (fdiv (fsub filtered_sales overall_sales) overall_sales) (Num 100)"

definition profit_delta :: "float64 \<Rightarrow> float64 \<Rightarrow> float64" where
  "profit_delta overall_profit filtered_profit =
     fmul (fdiv (fsub filtered_profit overall_profit) overall_profit) (Num 100)"

definition py_truediv :: "int \<Rightarrow> int \<Rightarrow> error + float64" where
  "py_truediv a b =
     (if b = 0 then Inl ZeroDivisionError else Inr (Num (rat_of_int a / rat_of_int b)))"

definition orders_delta :: "int \<Rightarrow> int \<Rightarrow> error + float64" where
  "orders_delta overall_orders filtered_orders =
     (case py_truediv (filtered_orders - overall_orders) overall_orders of
        Inl e \<Rightarrow> Inl e
      | Inr q \<Rightarrow> Inr (fmul q (Num 100)))"

definition delivery_delta :: "float64 \<Rightarrow> float64 \<Rightarrow> float64" where
  "delivery_delta overall_delivery avg = fsub avg overall_delivery"

record deltas =
  delta_sales :: float64
  delta_profit :: float64
  delta_orders :: float64
  delta_delivery :: float64

text \<open>
  The four assignments in the script's order. The first two cannot raise, so the only
  exception is the one of the third; the script has no handler for it, and a run that
  meets it ends there.
\<close>

definition compare :: "kpi \<Rightarrow> kpi \<Rightarrow> error + deltas" where
  "compare overall filtered =
     (let sd = sales_delta (total_sales overall) (total_sales filtered);
          pd = profit_delta (total_profit overall) (total_profit filtered)
      in case orders_delta (total_orders overall) (total_orders filtered) of
           Inl e \<Rightarrow> Inl e
         | Inr od \<Rightarrow>
             Inr \<lparr> delta_sales = sd, delta_profit = pd, delta_orders = od,
                   delta_delivery = delivery_delta (avg_delivery overall) (avg_delivery filtered) \<rparr>)"

section \<open>Grouped summaries\<close>

text \<open>
  \<^verbatim>\<open>groupby(key)[col].sum()\<close>: one entry for each distinct key, the keys in ascending
  order, each with the sum of the column over the rows of that key. Strings are ordered
  as Python orders them, character by character. The library leaves out the rows whose
  key cell is missing; there is no such row here, every cell being present.
\<close>

definition groupby_sum ::
  "(order_record \<Rightarrow> 'k::linorder) \<Rightarrow> (order_record \<Rightarrow> rat) \<Rightarrow> order_record list \<Rightarrow> ('k \<times> rat) list" where
  "groupby_sum key col rs =
     map (\<lambda>k. (k, group_sum (map col (filter (\<lambda>r. key r = k) rs))))
         (sort (remdups (map key rs)))"

text \<open>
  \<^verbatim>\<open>sort_values(ascending=False)\<close>: descending by the summed value. Entries with equal
  values keep their order here; pandas promises no order among them under its default
  sorting kind, and no theorem below depends on it.
\<close>

definition sort_values_desc :: "('k \<times> rat) list \<Rightarrow> ('k \<times> rat) list" where
  "sort_values_desc xs = sort_key (\<lambda>e. - snd e) xs"

text \<open>\<^verbatim>\<open>head(n)\<close>: the first \<open>n\<close> entries, and all but the last \<open>-n\<close> for a negative \<open>n\<close>.\<close>

definition head :: "int \<Rightarrow> 'a list \<Rightarrow> 'a list" where
  "head n xs = (if 0 \<le> n then take (nat n) xs else take (length xs - nat (- n)) xs)"

datatype dimension = Region | Category | ProductName | Segment

fun dim_key :: "dimension \<Rightarrow> order_record \<Rightarrow> string" where
  "dim_key Region = region"
| "dim_key Category = category"
| "dim_key ProductName = product_name"
| "dim_key Segment = segment"

datatype metric = Sales | Profit

fun metric_col :: "metric \<Rightarrow> order_record \<Rightarrow> rat" where
  "metric_col Sales = sales"
| "metric_col Profit = profit"

text \<open>
  The chain the script repeats for every single-dimension chart: group, sum, sort
  descending by the sum.
\<close>

definition group_by :: "order_record list \<Rightarrow> dimension \<Rightarrow> metric \<Rightarrow> (string \<times> rat) list" where
  "group_by rs d m = sort_values_desc (groupby_sum (dim_key d) (metric_col m) rs)"

definition region_sales :: "order_record list \<Rightarrow> (string \<times> rat) list" where
  "region_sales fdf = group_by fdf Region Sales"

definition category_sales :: "order_record list \<Rightarrow> (string \<times> rat) list" where
  "category_sales fdf = group_by fdf Category Sales"

definition top_products :: "order_record list \<Rightarrow> (string \<times> rat) list" where
  "top_products fdf = head 10 (group_by fdf ProductName Profit)"

text \<open>
  The segment chart sums two columns per segment and sorts by the first; the last chart
  groups by the pair of segment and category and is not sorted by value.
\<close>

definition segment_summary :: "order_record list \<Rightarrow> (string \<times> rat \<times> rat) list" where
  "segment_summary fdf =
     map (\<lambda>(k, s). (k, s, group_sum (map profit (filter (\<lambda>r. segment r = k) fdf))))
         (group_by fdf Segment Sales)"

definition segment_category :: "order_record list \<Rightarrow> ((string \<times> string) \<times> rat) list" where
  "segment_category fdf = groupby_sum (\<lambda>r. (segment r, category r)) sales fdf"

section \<open>Time series\<close>

text \<open>
  A period is numbered: the day number for the daily series, the number of months since
  January 1970 for the monthly one. The month of a day number follows the proleptic
  Gregorian calendar. The program labels a monthly bin with the last day of the month;
  the number of the month stands for that label here.
\<close>

datatype granularity = Monthly | Daily

definition month_index :: "date \<Rightarrow> int" where
  "month_index days =
     (let z = days + 719468;
          era = z div 146097;
          doe = z mod 146097;
          yoe = (doe - doe div 1460 + doe div 36524 - doe div 146096) div 365;
          doy = doe - (365 * yoe + yoe div 4 - yoe div 100);
          mp = (5 * doy + 2) div 153;
          m = (if mp < 10 then mp + 3 else mp - 9);
          y = yoe + era * 400 + (if m \<le> 2 then 1 else 0)
      in (y - 1970) * 12 + (m - 1))"

fun period :: "granularity \<Rightarrow> date \<Rightarrow> int" where
  "period Monthly d = month_index d"
| "period Daily d = d"

fun series_min :: "int list \<Rightarrow> int" where
  "series_min [] = 0"
| "series_min (x # xs) = fold min xs x"

fun series_max :: "int list \<Rightarrow> int" where
  "series_max [] = 0"
| "series_max (x # xs) = fold max xs x"

text \<open>
  \<^verbatim>\<open>set_index("Order Date").resample(freq)[["Sales", "Profit"]].sum()\<close>: the bins run
  from the period of the earliest date to the period of the latest one, one bin for every
  period in between, and the sum over a bin without rows is zero. An empty table gives an
  empty series.
\<close>

definition resample :: "granularity \<Rightarrow> order_record list \<Rightarrow> (int \<times> rat \<times> rat) list" where
  "resample g rs =
     (if rs = [] then []
      else map (\<lambda>p. (p, group_sum (map sales (filter (\<lambda>r. period g (order_date r) = p) rs)),
                       group_sum (map profit (filter (\<lambda>r. period g (order_date r) = p) rs))))
               [period g (series_min (map order_date rs)) .. period g (series_max (map order_date rs))])"

section \<open>The script as a whole\<close>

record toggles =
  show_region_chart :: bool
  show_category_chart :: bool
  show_top_products_chart :: bool
  show_segment_chart :: bool

record outputs =
  out_filtered :: "order_record list"
  out_overall :: kpi
  out_filtered_kpi :: kpi
  out_deltas :: deltas
  out_time_data :: "(int \<times> rat \<times> rat) list"
  out_region_sales :: "(string \<times> rat) list option"
  out_category_sales :: "(string \<times> rat) list option"
  out_top_products :: "(string \<times> rat) list option"
  out_segment_summary :: "(string \<times> rat \<times> rat) list option"
  out_segment_category :: "((string \<times> string) \<times> rat) list"

text \<open>
  The computations of one run of the script, on a loaded table and the state of the
  widgets. Everything after the validation is computed from the filtered table; a run
  that stops or raises returns the reason and nothing else. Drawing the charts and
  rendering the widgets are outside the model, with one exception: with the segment
  chart switched on, \<^verbatim>\<open>segment_summary.plot(kind='barh', ...)\<close> raises
  \<^verbatim>\<open>IndexError\<close> on a filtered table without rows, and the run ends there, before the
  last summary is computed.
\<close>

definition dashboard ::
  "order_record list \<Rightarrow> criteria \<Rightarrow> toggles \<Rightarrow> granularity \<Rightarrow> error + outputs" where
  "dashboard df c t g =
     (case apply_criteria df c of
        Inl e \<Rightarrow> Inl e
      | Inr fdf \<Rightarrow>
          (case compare (summarize df) (summarize fdf) of
             Inl e \<Rightarrow> Inl e
           | Inr ds \<Rightarrow>
               if show_segment_chart t \<and> fdf = [] then Inl IndexError
               else
               Inr \<lparr> out_filtered = fdf,
                     out_overall = summarize df,
                     out_filtered_kpi = summarize fdf,
                     out_deltas = ds,
                     out_time_data = resample g fdf,
                     out_region_sales = (if show_region_chart t then Some (region_sales fdf) else None),
                     out_category_sales = (if show_category_chart t then Some (category_sales fdf) else None),
                     out_top_products = (if show_top_products_chart t then Some (top_products fdf) else None),
                     out_segment_summary = (if show_segment_chart t then Some (segment_summary fdf) else None),
                     out_segment_category = segment_category fdf \<rparr>))"

section \<open>Example data\<close>

text \<open>
  Three orders: 2024-01-05 and 2024-02-10 (consumer, East) and 2024-04-11 (corporate,
  West); a criteria that selects the first two; a criteria without a region; a criteria
  that no order meets; an order without sales; two orders with sales of \<open>2^1023\<close> each,
  a finite float whose double is not.
\<close>

definition ex_jan :: order_record where
  "ex_jan = \<lparr> order_id = ''CA-1001'', order_date = 19727, ship_date = 19730,
              segment = ''Consumer'', region = ''East'', category = ''Technology'',
              product_name = ''Phone'', sales = 100, profit = 20 \<rparr>"

definition ex_feb :: order_record where
  "ex_feb = \<lparr> order_id = ''CA-1002'', order_date = 19763, ship_date = 19765,
              segment = ''Consumer'', region = ''East'', category = ''Furniture'',
              product_name = ''Chair'', sales = 200, profit = - 10 \<rparr>"

definition ex_apr :: order_record where
  "ex_apr = \<lparr> order_id = ''US-1003'', order_date = 19824, ship_date = 19829,
              segment = ''Corporate'', region = ''West'', category = ''Furniture'',
              product_name = ''Chair'', sales = 50, profit = 5 \<rparr>"

definition ex_free :: order_record where
  "ex_free = \<lparr> order_id = ''CA-1004'', order_date = 19730, ship_date = 19731,
               segment = ''Consumer'', region = ''East'', category = ''Technology'',
               product_name = ''Sticker'', sales = 0, profit = - 1 \<rparr>"



definition ex_table :: "order_record list" where
  "ex_table = [ex_jan, ex_feb, ex_apr]"

definition ex_criteria :: criteria where
  "ex_criteria = \<lparr> date_range = (19723, 19781), selected_segments = [''Consumer''],
                   selected_regions = [''East''] \<rparr>"

definition ex_no_region :: criteria where
  "ex_no_region = \<lparr> date_range = (19723, 19781), selected_segments = [''Consumer''],
                    selected_regions = [] \<rparr>"

definition ex_late :: criteria where
  "ex_late = \<lparr> date_range = (20000, 20100), selected_segments = [''Consumer''],
               selected_regions = [''East''] \<rparr>"

definition ex_toggles :: toggles where
  "ex_toggles = \<lparr> show_region_chart = True, show_category_chart = True,
                  show_top_products_chart = True, show_segment_chart = True \<rparr>"

section \<open>Lemmas on the filter\<close>

lemma select_mask_map: "select_mask df (map P df) = filter P df"
  unfolding select_mask_def by (induction df) auto

lemma mask_and_map: "mask_and (map P xs) (map Q xs) = map (\<lambda>x. P x \<and> Q x) xs"
  unfolding mask_and_def by (induction xs) auto

lemma ge_mask_map: "ge_mask (map f df) d = map (\<lambda>r. d \<le> f r) df"
  by (simp add: ge_mask_def)

lemma le_mask_map: "le_mask (map f df) d = map (\<lambda>r. f r \<le> d) df"
  by (simp add: le_mask_def)

lemma isin_map: "isin (map f df) vals = map (\<lambda>r. f r \<in> set vals) df"
  by (simp add: isin_def)

lemma filtered_df_filter:
  "filtered_df df c =
     filter (\<lambda>r. fst (date_range c) \<le> order_date r \<and> order_date r \<le> snd (date_range c)
                \<and> segment r \<in> set (selected_segments c) \<and> region r \<in> set (selected_regions c)) df"
  unfolding filtered_df_def
  by (simp only: ge_mask_map le_mask_map isin_map mask_and_map select_mask_map conj_assoc)

lemma ex_filtered: "filtered_df ex_table ex_criteria = [ex_jan, ex_feb]"
  by (simp add: filtered_df_filter ex_table_def ex_criteria_def ex_jan_def ex_feb_def ex_apr_def)

section \<open>Lemmas on sums, counts and means\<close>



lemma overflow_limit_half: "2 ^ 1023 < overflow_limit"
proof -
  have "(2::rat) ^ 970 < 2 ^ 1023"
    by (rule power_strict_increasing) simp_all
  moreover have "(2::rat) ^ 1024 = 2 ^ 1023 + 2 ^ 1023"
    by simp
  ultimately show ?thesis
    by (simp add: overflow_limit_def)
qed

lemma overflow_in_range: "\<bar>x\<bar> < overflow_limit \<Longrightarrow> overflow x = Num x"
  by (auto simp add: overflow_def)

lemma overflow_small: "\<bar>x\<bar> \<le> 2 ^ 1023 \<Longrightarrow> overflow x = Num x"
  using overflow_limit_half by (intro overflow_in_range) simp


lemma foldl_fadd_exact:
  "\<bar>a\<bar> + (\<Sum>x\<leftarrow>xs. \<bar>x\<bar>) < overflow_limit \<Longrightarrow>
   foldl fadd (Num a) (map Num xs) = Num (a + sum_list xs)"
proof (induction xs arbitrary: a)
  case Nil
  then show ?case by simp
next
  case (Cons x xs)
  have nonneg: "0 \<le> (\<Sum>y\<leftarrow>xs. \<bar>y\<bar>)"
    by (rule sum_list_nonneg) auto
  have step: "\<bar>a + x\<bar> < overflow_limit"
    using Cons.prems nonneg by simp
  have rest: "\<bar>a + x\<bar> + (\<Sum>y\<leftarrow>xs. \<bar>y\<bar>) < overflow_limit"
    using Cons.prems by simp
  show ?case
    using Cons.IH [OF rest] by (simp add: overflow_in_range [OF step] add.assoc)
qed

lemma series_sum_exact:
  "(\<Sum>x\<leftarrow>xs. \<bar>x\<bar>) \<le> 2 ^ 1023 \<Longrightarrow> series_sum xs = Num (sum_list xs)"
  using foldl_fadd_exact [of 0 xs] overflow_limit_half by (simp add: series_sum_def)

lemma series_sum_whole:
  "(\<Sum>x\<leftarrow>xs. \<bar>x\<bar>) \<le> 2 ^ 53 \<Longrightarrow> series_sum xs = Num (sum_list xs)"
proof -
  assume "(\<Sum>x\<leftarrow>xs. \<bar>x\<bar>) \<le> 2 ^ 53"
  moreover have "(2::rat) ^ 53 \<le> 2 ^ 1023"
    by (rule power_increasing) simp_all
  ultimately have "(\<Sum>x\<leftarrow>xs. \<bar>x\<bar>) \<le> 2 ^ 1023"
    by (rule order_trans)
  then show ?thesis
    by (rule series_sum_exact)
qed

lemma sum_list_abs_nonneg:
  fixes f :: "'a \<Rightarrow> rat"
  shows "\<forall>x\<in>set xs. 0 \<le> f x \<Longrightarrow> (\<Sum>x\<leftarrow>xs. \<bar>f x\<bar>) = (\<Sum>x\<leftarrow>xs. f x)"
  by (induction xs) simp_all

lemma series_sum_empty: "series_sum [] = Num 0"
  by (simp add: series_sum_def)




lemma sum_list_filter_le:
  fixes f :: "'a \<Rightarrow> rat"
  assumes "\<forall>x\<in>set xs. 0 \<le> f x"
  shows "sum_list (map f (filter P xs)) \<le> sum_list (map f xs)"
  using assms by (induction xs) (auto intro: add_mono add_increasing)

section \<open>Lemmas on grouping\<close>

lemma length_groupby_sum: "length (groupby_sum key col rs) = card (key ` set rs)"
  by (simp add: groupby_sum_def length_remdups_card_conv)

lemma length_group_by: "length (group_by rs d m) = card (dim_key d ` set rs)"
  by (simp add: group_by_def sort_values_desc_def length_groupby_sum)

lemma sorted_desc_sort_values: "sorted_wrt (\<ge>) (map snd (sort_values_desc xs))"
proof -
  have "sorted (map (\<lambda>e. - snd e) (sort_key (\<lambda>e. - snd e) xs))"
    by (rule sorted_sort_key)
  then show ?thesis
    by (simp add: sort_values_desc_def sorted_wrt_map)
qed

lemma sorted_desc_take: "sorted_wrt (\<ge>) (map snd xs) \<Longrightarrow> sorted_wrt (\<ge>) (map snd (take k xs))"
  for xs :: "('k \<times> rat) list"
  by (simp add: take_map [symmetric])

section \<open>Lemmas on the time series\<close>







section \<open>Lemmas on the deltas\<close>





lemma sales_delta_in_range:
  assumes "0 \<le> t" and "t \<le> b" and "b \<noteq> 0" and "b < overflow_limit"
  shows "sales_delta (Num b) (Num t) = Num ((t - b) / b * 100)"
    and "(t - b) / b * 100 \<le> 0"
proof -
  from assms have pos: "0 < b" by simp
  have big: "100 < overflow_limit"
    using overflow_limit_half by (simp add: less_trans [of 100 "2 ^ 1023"])
  have d: "\<bar>t - b\<bar> < overflow_limit"
    using assms by simp
  have q0: "(t - b) / b \<le> 0"
    using assms(2) pos by (simp add: divide_le_0_iff)
  have q1: "- 1 \<le> (t - b) / b"
    using assms(1) pos by (simp add: le_divide_eq)
  have q: "\<bar>(t - b) / b\<bar> < overflow_limit"
    using q0 q1 big by simp
  have p0: "(t - b) / b * 100 \<le> 0"
    using q0 by (intro mult_nonpos_nonneg) simp_all
  have p1: "- 100 \<le> (t - b) / b * 100"
    using mult_right_mono [OF q1, of 100] by simp
  have p: "\<bar>(t - b) / b * 100\<bar> < overflow_limit"
    using p0 p1 big by simp
  have s1: "fsub (Num t) (Num b) = Num (t - b)"
    by (simp only: fsub.simps overflow_in_range [OF d])
  have s2: "fdiv (Num (t - b)) (Num b) = Num ((t - b) / b)"
    using assms(3) by (simp only: fdiv.simps overflow_in_range [OF q] if_False)
  have s3: "fmul (Num ((t - b) / b)) (Num 100) = Num ((t - b) / b * 100)"
    by (simp only: fmul.simps overflow_in_range [OF p])
  show "sales_delta (Num b) (Num t) = Num ((t - b) / b * 100)"
    by (simp only: sales_delta_def s1 s2 s3)
  show "(t - b) / b * 100 \<le> 0"
    by (rule p0)
qed





lemma ex_free_kept: "filtered_df [ex_free] ex_criteria = [ex_free]"
  by (simp add: filtered_df_filter ex_free_def ex_criteria_def)

lemma ex_free_summary:
  "summarize [ex_free] =
     \<lparr> total_sales = Num 0, total_profit = Num (- 1), total_orders = 1, avg_delivery = Num 1 \<rparr>"
proof -
  have s: "series_sum [0] = Num 0"
    using series_sum_exact [of "[0]"] by simp
  have p: "series_sum [- 1] = Num (- 1)"
    using series_sum_exact [of "[- 1]"] by simp
  show ?thesis
    by (simp add: summarize_def s p nunique_def series_mean_def delivery_time_def ex_free_def)
qed

section \<open>The claims\<close>

text \<open>
  C3. For every table and every criteria with a non-empty segment and a non-empty region
  selection, the filter returns the rows of the table whose order date lies in the date
  range, both ends included, whose segment is selected and whose region is selected:
  exactly these rows, each as often as in the table and in the table's order. The filter
  is a function of the table: it returns a new list and the table is unchanged.
\<close>

theorem apply_keeps_exactly:
  assumes "selected_segments c \<noteq> []" and "selected_regions c \<noteq> []"
  shows "\<exists>kept. apply_criteria df c = Inr kept
           \<and> (\<forall>r. r \<in> set kept \<longleftrightarrow>
                  r \<in> set df \<and> fst (date_range c) \<le> order_date r \<and> order_date r \<le> snd (date_range c)
                  \<and> segment r \<in> set (selected_segments c) \<and> region r \<in> set (selected_regions c))
           \<and> subseq kept df
           \<and> kept = filter (\<lambda>r. fst (date_range c) \<le> order_date r \<and> order_date r \<le> snd (date_range c)
                  \<and> segment r \<in> set (selected_segments c) \<and> region r \<in> set (selected_regions c)) df"
proof -
  have "apply_criteria df c = Inr (filtered_df df c)"
    using assms by (simp add: apply_criteria_def)
  moreover have "subseq (filtered_df df c) df"
    by (simp add: filtered_df_filter)
  ultimately show ?thesis
    by (auto simp add: filtered_df_filter)
qed

theorem apply_keeps_exactly_witness:
  "selected_segments ex_criteria \<noteq> [] \<and> selected_regions ex_criteria \<noteq> []
   \<and> apply_criteria ex_table ex_criteria = Inr [ex_jan, ex_feb]
   \<and> subseq [ex_jan, ex_feb] ex_table"
proof -
  have s: "selected_segments ex_criteria \<noteq> []" and r: "selected_regions ex_criteria \<noteq> []"
    by (simp_all add: ex_criteria_def)
  from apply_keeps_exactly [OF s r, of ex_table]
  obtain kept where k: "apply_criteria ex_table ex_criteria = Inr kept" and sub: "subseq kept ex_table"
    by blast
  have "apply_criteria ex_table ex_criteria = Inr [ex_jan, ex_feb]"
    using s r by (simp add: apply_criteria_def ex_filtered)
  with k have "kept = [ex_jan, ex_feb]" by simp
  with k sub s r show ?thesis by simp
qed

text \<open>
  C7. Filtering is idempotent: when the filter accepts the criteria and returns a table,
  filtering that table again with the same criteria returns it unchanged.
\<close>

theorem apply_idempotent:
  assumes "apply_criteria df c = Inr kept"
  shows "apply_criteria kept c = Inr kept"
proof -
  from assms have ok: "\<not> (selected_segments c = [] \<or> selected_regions c = [])"
    and k: "kept = filtered_df df c"
    by (auto simp add: apply_criteria_def split: if_splits)
  have "filtered_df kept c = kept"
    unfolding k by (simp add: filtered_df_filter)
  with ok show ?thesis
    by (simp add: apply_criteria_def)
qed

theorem apply_idempotent_witness:
  "apply_criteria ex_table ex_criteria = Inr [ex_jan, ex_feb]
   \<and> apply_criteria [ex_jan, ex_feb] ex_criteria = Inr [ex_jan, ex_feb]"
proof -
  have first: "apply_criteria ex_table ex_criteria = Inr [ex_jan, ex_feb]"
    by (simp add: apply_criteria_def ex_filtered) (simp add: ex_criteria_def)
  from apply_idempotent [OF first] first show ?thesis by simp
qed

text \<open>
  C5. When the segment selection or the region selection is empty, the run stops at the
  validation with the incomplete-criteria signal and produces nothing: no filtered table,
  no metric, no grouped summary and no time series.
\<close>

theorem empty_selection_halts:
  assumes "selected_segments c = [] \<or> selected_regions c = []"
  shows "apply_criteria df c = Inl IncompleteCriteria
         \<and> dashboard df c t g = Inl IncompleteCriteria
         \<and> (\<nexists>out. dashboard df c t g = Inr out)"
  using assms by (simp add: dashboard_def apply_criteria_def)

theorem empty_selection_halts_witness:
  "selected_regions ex_no_region = []
   \<and> apply_criteria ex_table ex_no_region = Inl IncompleteCriteria
   \<and> dashboard ex_table ex_no_region ex_toggles Monthly = Inl IncompleteCriteria"
proof -
  have e: "selected_regions ex_no_region = []"
    by (simp add: ex_no_region_def)
  then have "selected_segments ex_no_region = [] \<or> selected_regions ex_no_region = []"
    by simp
  from empty_selection_halts [OF this, of ex_table ex_toggles Monthly] e
  show ?thesis by simp
qed





text \<open>
  C8. For every table, dimension, metric and count \<open>n\<close> that is not negative, the first
  \<open>n\<close> entries of the grouped summary are \<open>min n k\<close> many, where \<open>k\<close> is the number of
  distinct groups; their values never increase along the sequence; and when there are
  at most \<open>n\<close> groups, all of them are returned.
\<close>

theorem top_length_sorted:
  assumes "0 \<le> n"
  shows "length (head n (group_by rs d m)) = min (nat n) (card (dim_key d ` set rs))
         \<and> sorted_wrt (\<ge>) (map snd (head n (group_by rs d m)))
         \<and> (card (dim_key d ` set rs) \<le> nat n \<longrightarrow> head n (group_by rs d m) = group_by rs d m)"
proof -
  have h: "head n (group_by rs d m) = take (nat n) (group_by rs d m)"
    using assms by (simp add: head_def)
  have "sorted_wrt (\<ge>) (map snd (group_by rs d m))"
    by (simp add: group_by_def sorted_desc_sort_values)
  then have "sorted_wrt (\<ge>) (map snd (take (nat n) (group_by rs d m)))"
    by (rule sorted_desc_take)
  then show ?thesis
    by (simp add: h length_group_by)
qed

theorem top_length_sorted_witness:
  "(0::int) \<le> 1
   \<and> head 1 (group_by ex_table Category Sales) = [(''Furniture'', 250)]
   \<and> card (dim_key Category ` set ex_table) = 2
   \<and> length (head 1 (group_by ex_table Category Sales)) = min (nat 1) 2
   \<and> card (dim_key ProductName ` set ex_table) \<le> nat 10
   \<and> top_products ex_table = group_by ex_table ProductName Profit"
proof -
  have top1: "head 1 (group_by ex_table Category Sales) = [(''Furniture'', 250)]"
    by code_simp
  have groups: "card (dim_key Category ` set ex_table) = 2"
    by (simp add: ex_table_def ex_jan_def ex_feb_def ex_apr_def)
  have products: "card (dim_key ProductName ` set ex_table) \<le> nat 10"
    by (simp add: ex_table_def ex_jan_def ex_feb_def ex_apr_def card_insert_if)
  have one: "length (head 1 (group_by ex_table Category Sales)) = min (nat 1) 2"
    using top_length_sorted [of 1 ex_table Category Sales] groups by simp
  have all: "top_products ex_table = group_by ex_table ProductName Profit"
    using top_length_sorted [of 10 ex_table ProductName Profit] products
    by (simp add: top_products_def)
  from top1 groups products one all show ?thesis by simp
qed





text \<open>
  C9. On a filtered table without rows the aggregate operations return defined results:
  the metrics are zero sales, zero profit, zero orders and a NaN average delivery time,
  and every grouped summary and every time series is empty.
\<close>

theorem empty_result_defined:
  "summarize [] =
     \<lparr> total_sales = Num 0, total_profit = Num 0, total_orders = 0, avg_delivery = NaN \<rparr>
   \<and> group_by [] d m = [] \<and> top_products [] = [] \<and> segment_summary [] = []
   \<and> segment_category [] = [] \<and> resample g [] = []"
proof -
  have s: "summarize [] =
      \<lparr> total_sales = Num 0, total_profit = Num 0, total_orders = 0, avg_delivery = NaN \<rparr>"
    by (simp add: summarize_def series_sum_empty nunique_def series_mean_def)
  have grouped: "group_by [] d m = []" for d m
    by (simp add: group_by_def groupby_sum_def sort_values_desc_def)
  have tp: "top_products [] = []"
    by (simp add: top_products_def head_def grouped)
  have ss: "segment_summary [] = []"
    by (simp add: segment_summary_def grouped)
  have sc: "segment_category [] = []"
    by (simp add: segment_category_def groupby_sum_def)
  have r: "resample g [] = []"
    by (simp add: resample_def)
  from s grouped tp ss sc r show ?thesis by simp
qed

theorem empty_result_defined_witness:
  "filtered_df ex_table ex_late = []
   \<and> summarize (filtered_df ex_table ex_late) =
       \<lparr> total_sales = Num 0, total_profit = Num 0, total_orders = 0, avg_delivery = NaN \<rparr>
   \<and> group_by (filtered_df ex_table ex_late) Region Sales = []
   \<and> resample Monthly (filtered_df ex_table ex_late) = []"
proof -
  have none: "filtered_df ex_table ex_late = []"
    by (simp add: filtered_df_filter ex_table_def ex_late_def ex_jan_def ex_feb_def ex_apr_def)
  from empty_result_defined [of Region Sales Monthly] none show ?thesis by simp
qed




text \<open>
  Counterexample to C10 as first stated, that with no negative sales value the sales
  delta is always less than or equal to zero. On a table whose only order has sales zero
  the baseline total is zero and the delta is NaN, and NaN is not less than or equal to
  zero. On the table of two orders with sales of \<open>2^1023\<close> each, with both orders kept,
  both totals are positive infinity and the delta is NaN as well.
\<close>

theorem sales_delta_nan_counterexample:
  "0 \<le> sales ex_free
   \<and> sales_delta (total_sales (summarize [ex_free]))
        (total_sales (summarize (filtered_df [ex_free] ex_criteria))) = NaN
   \<and> \<not> fle (sales_delta (total_sales (summarize [ex_free]))
        (total_sales (summarize (filtered_df [ex_free] ex_criteria)))) (Num 0)
   \<and> sales_delta PosInf PosInf = NaN"
proof -
  have "sales_delta (Num 0) (Num 0) = NaN"
    by (simp add: sales_delta_def overflow_small)
  moreover have "sales_delta PosInf PosInf = NaN"
    by (simp add: sales_delta_def)
  ultimately show ?thesis
    by (simp add: ex_free_kept ex_free_summary) (simp add: ex_free_def)
qed

text \<open>
  C10. For every table without a negative sales value and every criteria, the filtered
  table is a sub-sequence of the table, and the sum of its sales values does not exceed
  the sum of the sales values of the table. When moreover the sales values are whole
  numbers that add up to at most \<open>2^53\<close>, so that both totals are formed without
  rounding and within the float range, the sales delta the program computes is a finite
  number that is at most zero if the baseline total is not zero, and NaN if it is zero.
  In general, for every pair of finite totals, a baseline and a filtered total that is
  not negative and does not exceed the baseline, the sales delta is a finite number that
  is at most zero when the baseline is not zero, and NaN when both are zero; in both
  cases it is not greater than zero.
\<close>

theorem filtered_sales_delta_not_positive:
  "((\<forall>r\<in>set df. 0 \<le> sales r) \<longrightarrow>
       subseq (filtered_df df c) df
     \<and> (\<Sum>r\<leftarrow>filtered_df df c. sales r) \<le> (\<Sum>r\<leftarrow>df. sales r))
   \<and> ((\<forall>r\<in>set df. sales r \<in> \<int> \<and> 0 \<le> sales r) \<and> (\<Sum>r\<leftarrow>df. sales r) \<le> 2 ^ 53 \<longrightarrow>
        (total_sales (summarize df) \<noteq> Num 0 \<longrightarrow>
           (\<exists>x. sales_delta (total_sales (summarize df))
                  (total_sales (summarize (filtered_df df c))) = Num x \<and> x \<le> 0))
      \<and> (total_sales (summarize df) = Num 0 \<longrightarrow>
           sales_delta (total_sales (summarize df))
             (total_sales (summarize (filtered_df df c))) = NaN))
   \<and> (0 \<le> t \<and> t \<le> b \<and> b \<noteq> 0 \<and> b < overflow_limit \<longrightarrow>
        (\<exists>x. sales_delta (Num b) (Num t) = Num x \<and> x \<le> 0)
      \<and> \<not> flt (Num 0) (sales_delta (Num b) (Num t)))
   \<and> sales_delta (Num 0) (Num 0) = NaN
   \<and> \<not> flt (Num 0) (sales_delta (Num 0) (Num 0))"
proof -
  have nan: "sales_delta (Num 0) (Num 0) = NaN"
    by (simp add: sales_delta_def overflow_small)
  have sub: "subseq (filtered_df df c) df"
    by (simp add: filtered_df_filter)
  have le: "(\<Sum>r\<leftarrow>filtered_df df c. sales r) \<le> (\<Sum>r\<leftarrow>df. sales r)"
    if "\<forall>r\<in>set df. 0 \<le> sales r"
    unfolding filtered_df_filter by (rule sum_list_filter_le [OF that])
  have pair: "(\<exists>x. sales_delta (Num b) (Num t) = Num x \<and> x \<le> 0)
      \<and> \<not> flt (Num 0) (sales_delta (Num b) (Num t))"
    if h: "0 \<le> t \<and> t \<le> b \<and> b \<noteq> 0 \<and> b < overflow_limit" for t b
  proof -
    from h have a: "0 \<le> t" "t \<le> b" "b \<noteq> 0" "b < overflow_limit"
      by simp_all
    note v = sales_delta_in_range(1) [OF a] and neg = sales_delta_in_range(2) [OF a]
    from v neg show ?thesis by simp
  qed
  have computed: "(total_sales (summarize df) \<noteq> Num 0 \<longrightarrow>
           (\<exists>x. sales_delta (total_sales (summarize df))
                  (total_sales (summarize (filtered_df df c))) = Num x \<and> x \<le> 0))
      \<and> (total_sales (summarize df) = Num 0 \<longrightarrow>
           sales_delta (total_sales (summarize df))
             (total_sales (summarize (filtered_df df c))) = NaN)"
    if h: "(\<forall>r\<in>set df. sales r \<in> \<int> \<and> 0 \<le> sales r) \<and> (\<Sum>r\<leftarrow>df. sales r) \<le> 2 ^ 53"
  proof -
    let ?B = "\<Sum>r\<leftarrow>df. sales r"
    let ?T = "\<Sum>r\<leftarrow>filtered_df df c. sales r"
    from h have nonneg: "\<forall>r\<in>set df. 0 \<le> sales r"
      by simp
    then have nonneg': "\<forall>r\<in>set (filtered_df df c). 0 \<le> sales r"
      by (simp add: filtered_df_filter)
    have tb: "?T \<le> ?B"
      by (rule le [OF nonneg])
    have t0: "0 \<le> ?T"
      using nonneg' by (intro sum_list_nonneg) auto
    have b53: "?B \<le> 2 ^ 53"
      using h by simp
    have base: "total_sales (summarize df) = Num ?B"
      using series_sum_whole [of "map sales df"] b53 sum_list_abs_nonneg [OF nonneg]
      by (simp add: summarize_def comp_def)
    have cur: "total_sales (summarize (filtered_df df c)) = Num ?T"
      using series_sum_whole [of "map sales (filtered_df df c)"] tb b53
        sum_list_abs_nonneg [OF nonneg']
      by (simp add: summarize_def comp_def)
    have "(2::rat) ^ 53 < 2 ^ 1023"
      by (rule power_strict_increasing) simp_all
    with b53 overflow_limit_half have range: "?B < overflow_limit"
      by simp
    show ?thesis
    proof (cases "?B = 0")
      case True
      with tb t0 have "?T = 0" by simp
      with True show ?thesis by (simp add: base cur nan)
    next
      case False
      with t0 tb range have "0 \<le> ?T \<and> ?T \<le> ?B \<and> ?B \<noteq> 0 \<and> ?B < overflow_limit"
        by simp
      from pair [OF this] False show ?thesis by (simp add: base cur)
    qed
  qed
  from nan sub le pair computed show ?thesis
    by (simp del: fmul.simps fdiv.simps fsub.simps)
qed

theorem filtered_sales_delta_not_positive_witness:
  "0 \<le> sales ex_jan \<and> 0 \<le> sales ex_feb \<and> 0 \<le> sales ex_apr
   \<and> sales ex_jan \<in> \<int> \<and> sales ex_feb \<in> \<int> \<and> sales ex_apr \<in> \<int>
   \<and> (\<Sum>r\<leftarrow>ex_table. sales r) = 350
   \<and> (\<Sum>r\<leftarrow>filtered_df ex_table ex_criteria. sales r) = 300
   \<and> total_sales (summarize ex_table) = Num 350
   \<and> total_sales (summarize (filtered_df ex_table ex_criteria)) = Num 300
   \<and> (0::rat) \<le> 300 \<and> (300::rat) \<le> 350 \<and> (350::rat) \<noteq> 0 \<and> 350 < overflow_limit
   \<and> sales_delta (Num 350) (Num 300) = Num (- (100 / 7))
   \<and> \<not> flt (Num 0) (sales_delta (Num 350) (Num 300))"
proof -
  note claim = filtered_sales_delta_not_positive [of ex_table ex_criteria 300 350]
  have nonneg: "\<forall>r\<in>set ex_table. sales r \<in> \<int> \<and> 0 \<le> sales r"
    by (simp add: ex_table_def ex_jan_def ex_feb_def ex_apr_def)
  have base: "(\<Sum>r\<leftarrow>ex_table. sales r) = 350"
    by (simp add: ex_table_def ex_jan_def ex_feb_def ex_apr_def)
  have cur: "(\<Sum>r\<leftarrow>filtered_df ex_table ex_criteria. sales r) = 300"
    by (simp add: ex_filtered ex_jan_def ex_feb_def)
  have range: "(350::rat) < overflow_limit"
    using overflow_limit_half by (simp add: less_trans [of 350 "2 ^ 1023"])
  have kpi_base: "total_sales (summarize ex_table) = Num 350"
    using series_sum_whole [of "map sales ex_table"]
    by (simp add: summarize_def ex_table_def ex_jan_def ex_feb_def ex_apr_def)
  have kpi_cur: "total_sales (summarize (filtered_df ex_table ex_criteria)) = Num 300"
    using series_sum_whole [of "map sales [ex_jan, ex_feb]"]
    by (simp add: ex_filtered summarize_def ex_jan_def ex_feb_def)
  have val: "sales_delta (Num 350) (Num 300) = Num (- (100 / 7))"
    using sales_delta_in_range(1) [of 300 350] range by simp
  have "\<not> flt (Num 0) (sales_delta (Num 350) (Num 300))"
    using claim range by simp
  with nonneg base cur range kpi_base kpi_cur val show ?thesis
    by (simp add: ex_table_def)
qed


end
